theory Spec2Isabelle
  imports Main
begin

section \<open>Strings and numbers of the page\<close>

text \<open>
  A JavaScript string is a sequence of UTF-16 code units; \<open>===\<close> on strings is equality of
  these sequences. The numbers of the page (\<open>status\<close>, \<open>cardType\<close>, counts, the deck id) are
  integers in every value the page produces itself.
\<close>

type_synonym jsstring = "nat list"

definition js :: "string \<Rightarrow> jsstring" where
  "js = map of_char"

text \<open>
  \<open>String.prototype.trim\<close> strips the WhiteSpace and LineTerminator code points of ECMAScript
  from both ends: TAB, LF, VT, FF, CR, SP, NBSP, U+1680, U+2000..U+200A, U+2028, U+2029, U+202F,
  U+205F, U+3000 and U+FEFF.
\<close>

definition isWhiteSpace :: "nat \<Rightarrow> bool" where
  "isWhiteSpace c \<longleftrightarrow>
     c = 9 \<or> c = 10 \<or> c = 11 \<or> c = 12 \<or> c = 13 \<or> c = 32 \<or> c = 160 \<or> c = 5760 \<or>
     (8192 \<le> c \<and> c \<le> 8202) \<or> c = 8232 \<or> c = 8233 \<or> c = 8239 \<or> c = 8287 \<or>
     c = 12288 \<or> c = 65279"

definition trim :: "jsstring \<Rightarrow> jsstring" where
  "trim t = rev (dropWhile isWhiteSpace (rev (dropWhile isWhiteSpace t)))"

text \<open>\<open>a || b\<close> on strings: the empty string is the only falsy string.\<close>

definition orElse :: "jsstring \<Rightarrow> jsstring \<Rightarrow> jsstring" where
  "orElse a b = (if a = [] then b else a)"

section \<open>Data model (AIFlashcardsPage.svelte)\<close>

text \<open>
  \<open>interface SimpleCard\<close>; its fields \<open>id\<close> and \<open>back\<close> are named \<open>card_id\<close> and
  \<open>card_back\<close> here.
\<close>

record SimpleCard =
  card_id :: jsstring
  cardType :: int
  front :: jsstring
  card_back :: jsstring
  suggestedTags :: "jsstring list"
  status :: int

text \<open>\<open>interface SimpleSession\<close>, the page's \<open>session\<close> property.\<close>

record SimpleSession =
  hasSession :: bool
  session_cards :: "SimpleCard list"
  session_sourceName :: jsstring
  session_sourceText :: jsstring

text \<open>\<open>type Step = "source" | "generating" | "review" | "importing" | "done"\<close>\<close>

datatype step = Source | Generating | Review | Importing | Done

text \<open>
  The promise that one call of \<open>generateFlashcardsViaBackend\<close> returns. A settled promise
  ignores every later \<open>resolve\<close> and \<open>reject\<close>. The \<open>handleGenerate\<close> call awaiting it has
  \<open>text\<close> and \<open>name\<close> in its closure.
\<close>

datatype outcome = Pending | Fulfilled "SimpleCard list" | Rejected jsstring

record invocation =
  settled :: outcome
  inv_text :: jsstring
  inv_name :: jsstring

text \<open>Calls that leave the page: bridge commands and the backend RPCs, in the order issued.\<close>

datatype request = Ready | GenerateFlashcards jsstring jsstring

datatype rpc =
    BridgeCommand request
  | SaveSession jsstring jsstring "SimpleCard list"
  | ClearSession
  | ImportApprovedCards "SimpleCard list" int "jsstring list"

text \<open>
  The component's variables. A slot \<open>pendingGenerateResolve\<close> / \<open>pendingGenerateReject\<close> holds
  the \<open>resolve\<close> / \<open>reject\<close> function of one promise, here the promise's index in \<open>promises\<close>;
  \<open>None\<close> is \<open>null\<close>. \<open>timers\<close> are the armed \<open>setTimeout\<close> callbacks as (due time in ms,
  promise whose \<open>reject\<close> the callback closes over); \<open>clock\<close> is the time in ms.
\<close>

record page =
  currentStep :: step
  cards :: "SimpleCard list"
  sourceName :: jsstring
  sourceText :: jsstring
  sourceUrl :: jsstring
  selectedDeckId :: int
  error :: "jsstring option"
  importResult :: "(int \<times> int) option"
  pendingGenerateResolve :: "nat option"
  pendingGenerateReject :: "nat option"
  promises :: "invocation list"
  timers :: "(nat \<times> nat) list"
  clock :: nat
  rpcs :: "rpc list"

text \<open>Initial values of the variables, then \<open>onMount\<close> (the \<open>ready\<close> bridge command).\<close>

definition mountPage :: "(jsstring \<times> int) list \<Rightarrow> SimpleSession \<Rightarrow> page" where
  "mountPage decks session =
     \<lparr> currentStep = (if hasSession session then Review else Source),
       cards = (if hasSession session then session_cards session else []),
       sourceName = orElse (session_sourceName session) [],
       sourceText = orElse (session_sourceText session) [],
       sourceUrl = [],
       selectedDeckId = (case decks of [] \<Rightarrow> 0 | d # _ \<Rightarrow> snd d),
       error = None,
       importResult = None,
       pendingGenerateResolve = None,
       pendingGenerateReject = None,
       promises = [],
       timers = [],
       clock = 0,
       rpcs = [BridgeCommand Ready] \<rparr>"

text \<open>The reactive counts \<open>$: approvedCount = cards.filter((c) => c.status === 1).length\<close> etc.\<close>

definition approvedCount :: "page \<Rightarrow> nat" where
  "approvedCount s = length (filter (\<lambda>c. status c = 1) (cards s))"

definition rejectedCount :: "page \<Rightarrow> nat" where
  "rejectedCount s = length (filter (\<lambda>c. status c = 2) (cards s))"

definition pendingCount :: "page \<Rightarrow> nat" where
  "pendingCount s = length (filter (\<lambda>c. status c = 0) (cards s))"

section \<open>Generation: handleGenerate and generateFlashcardsViaBackend\<close>

text \<open>
  The \<open>catch\<close> block of \<open>handleGenerate\<close>; every value thrown here is an \<open>Error\<close>, so the
  message shown is \<open>e.message\<close>.
\<close>

definition handleGenerate_catch :: "jsstring \<Rightarrow> page \<Rightarrow> page" where
  "handleGenerate_catch msg s = s\<lparr> error := Some msg, currentStep := Source \<rparr>"

text \<open>
  \<open>handleGenerate\<close> after \<open>await generateFlashcardsViaBackend(text, name)\<close> has returned the
  cards, up to the call of \<open>saveSession\<close>.
\<close>

definition handleGenerate_resume :: "invocation \<Rightarrow> SimpleCard list \<Rightarrow> page \<Rightarrow> page" where
  "handleGenerate_resume call generatedCards s =
     s\<lparr> cards := generatedCards, currentStep := Review,
        rpcs := rpcs s @ [SaveSession (inv_name call) (inv_text call) generatedCards] \<rparr>"

text \<open>
  \<open>handleGenerate\<close> after \<open>await saveSession(...)\<close>: a rejected save is caught by the same
  \<open>catch\<close>; a successful one ends the function.
\<close>

definition handleGenerate_saved :: "jsstring + unit \<Rightarrow> page \<Rightarrow> page" where
  "handleGenerate_saved r s = (case r of Inl msg \<Rightarrow> handleGenerate_catch msg s | Inr _ \<Rightarrow> s)"

text \<open>
  The \<open>resolve\<close> and \<open>reject\<close> functions of promise \<open>p\<close>. Settling a pending promise runs the
  awaiting \<open>handleGenerate\<close> in the same turn of the event loop; on a settled promise both do
  nothing.
\<close>

definition isPending :: "nat \<Rightarrow> page \<Rightarrow> bool" where
  "isPending p s \<longleftrightarrow> p < length (promises s) \<and> settled (promises s ! p) = Pending"

definition resolve :: "nat \<Rightarrow> SimpleCard list \<Rightarrow> page \<Rightarrow> page" where
  "resolve p cs s =
     (if isPending p s
      then handleGenerate_resume (promises s ! p) cs
             (s\<lparr> promises := (promises s)[p := (promises s ! p)\<lparr> settled := Fulfilled cs \<rparr>] \<rparr>)
      else s)"

definition reject :: "nat \<Rightarrow> jsstring \<Rightarrow> page \<Rightarrow> page" where
  "reject p msg s =
     (if isPending p s
      then handleGenerate_catch msg
             (s\<lparr> promises := (promises s)[p := (promises s ! p)\<lparr> settled := Rejected msg \<rparr>] \<rparr>)
      else s)"

text \<open>
  \<open>handleGenerate(text, name, url)\<close> up to its \<open>await\<close>, with the executor of the promise of
  \<open>generateFlashcardsViaBackend\<close>: both slots are overwritten, the bridge command is sent and
  a timer of 120000 ms is armed. Nothing ever disarms a timer.
\<close>

definition timeoutMs :: nat where
  "timeoutMs = 120000"

definition handleGenerate :: "jsstring \<Rightarrow> jsstring \<Rightarrow> jsstring \<Rightarrow> page \<Rightarrow> page" where
  "handleGenerate text name url s =
     (let p = length (promises s) in
      s\<lparr> sourceText := text, sourceName := name, sourceUrl := url,
         currentStep := Generating, error := None,
         promises := promises s @ [\<lparr> settled = Pending, inv_text = text, inv_name = name \<rparr>],
         pendingGenerateResolve := Some p,
         pendingGenerateReject := Some p,
         rpcs := rpcs s @ [BridgeCommand (GenerateFlashcards text name)],
         timers := timers s @ [(clock s + timeoutMs, p)] \<rparr>)"

text \<open>
  The response callback of the bridge command of promise \<open>p\<close>. \<open>Unparsable msg\<close> is a response
  on which \<open>JSON.parse\<close> (or reading \<open>result.error\<close>) throws an error with message \<open>msg\<close>;
  \<open>Reply e\<close> is a parsed object with its \<open>error\<close> field (\<open>None\<close> when absent). A non-empty
  \<open>error\<close> is the immediate error; anything else is the acknowledgement.
\<close>

datatype bridge_response = Unparsable jsstring | Reply "jsstring option"

definition truthy :: "jsstring option \<Rightarrow> bool" where
  "truthy e \<longleftrightarrow> (case e of None \<Rightarrow> False | Some t \<Rightarrow> t \<noteq> [])"

definition bridgeResponse :: "nat \<Rightarrow> bridge_response \<Rightarrow> page \<Rightarrow> page" where
  "bridgeResponse p r s =
     (case r of
        Unparsable msg \<Rightarrow>
          reject p msg (s\<lparr> pendingGenerateResolve := None, pendingGenerateReject := None \<rparr>)
      | Reply e \<Rightarrow>
          if truthy e
          then reject p (the e) (s\<lparr> pendingGenerateResolve := None, pendingGenerateReject := None \<rparr>)
          else s)"

text \<open>
  \<open>window._aiFlashcardsOnGenerate(result)\<close>, the completion signal: \<open>?.\<close> calls the function in
  the slot when the slot is not null; both slots are null afterwards.
\<close>

record generate_result =
  result_cards :: "SimpleCard list option"
  result_error :: "jsstring option"

definition aiFlashcardsOnGenerate :: "generate_result \<Rightarrow> page \<Rightarrow> page" where
  "aiFlashcardsOnGenerate r s =
     (let s' =
        (if truthy (result_error r)
         then (case pendingGenerateReject s of
                 None \<Rightarrow> s
               | Some p \<Rightarrow> reject p (the (result_error r)) s)
         else (case pendingGenerateResolve s of
                 None \<Rightarrow> s
               | Some p \<Rightarrow> resolve p (case result_cards r of None \<Rightarrow> [] | Some cs \<Rightarrow> cs) s))
      in s'\<lparr> pendingGenerateResolve := None, pendingGenerateReject := None \<rparr>)"

text \<open>
  The timer callback armed by the call that created promise \<open>p\<close>: it tests the shared slot and
  calls the \<open>reject\<close> of its own promise.
\<close>

definition timeoutMessage :: jsstring where
  "timeoutMessage = js ''Generation timed out after 2 minutes''"

definition timerFired :: "nat \<Rightarrow> page \<Rightarrow> page" where
  "timerFired p s =
     (if pendingGenerateResolve s \<noteq> None
      then reject p timeoutMessage
             (s\<lparr> pendingGenerateResolve := None, pendingGenerateReject := None \<rparr>)
      else s)"

text \<open>
  Time passes by \<open>d\<close> ms: every timer due by then runs, earliest first (timers of equal due
  time in the order armed), and is gone.
\<close>

definition advance :: "nat \<Rightarrow> page \<Rightarrow> page" where
  "advance d s =
     (let t = clock s + d;
          due = filter (\<lambda>x. fst x \<le> t) (timers s);
          later = filter (\<lambda>x. \<not> fst x \<le> t) (timers s)
      in foldl (\<lambda>s' x. timerFired (snd x) s')
           (s\<lparr> clock := t, timers := later \<rparr>) (sort_key fst due))"

section \<open>Review: status updates\<close>

text \<open>
  \<open>handleCardUpdate\<close>, \<open>approveAll\<close> and \<open>rejectAll\<close>; their \<open>saveSession\<close> is not awaited and
  its failure is only logged.
\<close>

definition handleCardUpdate :: "jsstring \<Rightarrow> int \<Rightarrow> page \<Rightarrow> page" where
  "handleCardUpdate cardId st s =
     (let cs = map (\<lambda>card. if card_id card = cardId then card\<lparr> status := st \<rparr> else card) (cards s)
      in s\<lparr> cards := cs, rpcs := rpcs s @ [SaveSession (sourceName s) (sourceText s) cs] \<rparr>)"

definition approveAll :: "page \<Rightarrow> page" where
  "approveAll s =
     (let cs = map (\<lambda>card. card\<lparr> status := 1 \<rparr>) (cards s)
      in s\<lparr> cards := cs, rpcs := rpcs s @ [SaveSession (sourceName s) (sourceText s) cs] \<rparr>)"

definition rejectAll :: "page \<Rightarrow> page" where
  "rejectAll s =
     (let cs = map (\<lambda>card. card\<lparr> status := 2 \<rparr>) (cards s)
      in s\<lparr> cards := cs, rpcs := rpcs s @ [SaveSession (sourceName s) (sourceText s) cs] \<rparr>)"

section \<open>Import and new session\<close>

definition noApprovedMessage :: jsstring where
  "noApprovedMessage = js ''No cards have been approved yet.''"

text \<open>\<open>handleImport\<close> up to \<open>await importApprovedCards(...)\<close>.\<close>

definition handleImport :: "page \<Rightarrow> page" where
  "handleImport s =
     (if approvedCount s = 0
      then s\<lparr> error := Some noApprovedMessage \<rparr>
      else s\<lparr> currentStep := Importing, error := None,
              rpcs := rpcs s @
                [ImportApprovedCards (filter (\<lambda>c. status c = 1) (cards s)) (selectedDeckId s) []] \<rparr>)"

text \<open>The \<open>catch\<close> block of \<open>handleImport\<close>.\<close>

definition handleImport_catch :: "jsstring \<Rightarrow> page \<Rightarrow> page" where
  "handleImport_catch msg s = s\<lparr> error := Some msg, currentStep := Review \<rparr>"

text \<open>
  \<open>handleImport\<close> after the import call has settled, up to \<open>await clearSession({})\<close>: a result
  \<open>(importedCount, duplicateCount)\<close> is stored and \<open>clearSession\<close> is called; a failure goes to
  the \<open>catch\<close>.
\<close>

definition handleImport_imported :: "jsstring + (int \<times> int) \<Rightarrow> page \<Rightarrow> page" where
  "handleImport_imported r s =
     (case r of
        Inl msg \<Rightarrow> handleImport_catch msg s
      | Inr res \<Rightarrow> s\<lparr> importResult := Some res, rpcs := rpcs s @ [ClearSession] \<rparr>)"

text \<open>\<open>handleImport\<close> after \<open>clearSession\<close> has settled.\<close>

definition handleImport_cleared :: "jsstring + unit \<Rightarrow> page \<Rightarrow> page" where
  "handleImport_cleared r s =
     (case r of
        Inl msg \<Rightarrow> handleImport_catch msg s
      | Inr _ \<Rightarrow> s\<lparr> currentStep := Done \<rparr>)"

definition handleNewSession :: "page \<Rightarrow> page" where
  "handleNewSession s =
     s\<lparr> cards := [], sourceName := [], sourceText := [], error := None, importResult := None,
        currentStep := Source, rpcs := rpcs s @ [ClearSession] \<rparr>"

section \<open>The source input (SourceSelector.svelte)\<close>

text \<open>
  The variables of the component that its \<open>handleGenerate\<close> reads or writes; its \<open>sourceName\<close>
  and \<open>error\<close> are named \<open>selector_sourceName\<close> and \<open>selector_error\<close> here. The component is
  created with the properties \<open>initialText\<close>, \<open>initialSourceName\<close> and \<open>initialUrl\<close>.
\<close>

record selector =
  textInput :: jsstring
  urlInput :: jsstring
  selector_sourceName :: jsstring
  selector_error :: "jsstring option"

definition mountSelector :: "jsstring \<Rightarrow> jsstring \<Rightarrow> jsstring \<Rightarrow> selector" where
  "mountSelector initialText initialSourceName initialUrl =
     \<lparr> textInput = initialText, urlInput = initialUrl,
       selector_sourceName = initialSourceName, selector_error = None \<rparr>"

text \<open>
  The page's template creates the source input only in step \<open>source\<close>, with
  \<open>initialText={sourceText} initialSourceName={sourceName} initialUrl={sourceUrl}\<close>.
\<close>

definition renderSelector :: "page \<Rightarrow> selector option" where
  "renderSelector s =
     (if currentStep s = Source
      then Some (mountSelector (sourceText s) (sourceName s) (sourceUrl s))
      else None)"

text \<open>
  The page's template has one element for the page's \<open>error\<close>,
  \<open>{#if error}<div class="error-message">{error}</div>{/if}\<close>, and it is inside the branch
  of step \<open>review\<close>. The branch of step \<open>source\<close> holds the source input only, which gets
  no error property and shows its own \<open>error\<close> variable.
\<close>

definition renderError :: "page \<Rightarrow> jsstring option" where
  "renderError s = (if currentStep s = Review \<and> truthy (error s) then error s else None)"

definition provideTextMessage :: jsstring where
  "provideTextMessage = js ''Please provide text to generate flashcards from.''"

text \<open>
  \<open>handleGenerate\<close> of the source input: the new component state and the detail
  \<open>(text, name, url)\<close> of the \<open>generate\<close> event, if one is dispatched.
\<close>

definition selector_handleGenerate ::
  "selector \<Rightarrow> selector \<times> (jsstring \<times> jsstring \<times> jsstring) option" where
  "selector_handleGenerate sel =
     (if trim (textInput sel) = []
      then (sel\<lparr> selector_error := Some provideTextMessage \<rparr>, None)
      else (sel, Some (textInput sel, orElse (selector_sourceName sel) (js ''Untitled''),
                       urlInput sel)))"

text \<open>
  \<open>handleGenerate\<close> of the source input followed by the page's listener
  \<open>on:generate={(e) => handleGenerate(e.detail.text, e.detail.name, e.detail.url)}\<close>, which
  runs when the event is dispatched.
\<close>

definition submitGenerate :: "selector \<Rightarrow> page \<Rightarrow> selector \<times> page" where
  "submitGenerate sel s =
     (case selector_handleGenerate sel of
        (sel', None) \<Rightarrow> (sel', s)
      | (sel', Some (text, name, url)) \<Rightarrow> (sel', handleGenerate text name url s))"

section \<open>The workflow as a sequence of events\<close>

datatype event =
    Generate jsstring jsstring jsstring
  | BridgeResponded nat bridge_response
  | OnGenerate generate_result
  | SaveSettled "jsstring + unit"
  | Advance nat
  | CardUpdate jsstring int
  | ApproveAll
  | RejectAll
  | Import
  | ImportSettled "jsstring + (int \<times> int)"
  | ClearSettled "jsstring + unit"
  | NewSession

fun fire :: "event \<Rightarrow> page \<Rightarrow> page" where
  "fire (Generate text name url) s = handleGenerate text name url s"
| "fire (BridgeResponded p r) s = bridgeResponse p r s"
| "fire (OnGenerate r) s = aiFlashcardsOnGenerate r s"
| "fire (SaveSettled r) s = handleGenerate_saved r s"
| "fire (Advance d) s = advance d s"
| "fire (CardUpdate cardId st) s = handleCardUpdate cardId st s"
| "fire ApproveAll s = approveAll s"
| "fire RejectAll s = rejectAll s"
| "fire Import s = handleImport s"
| "fire (ImportSettled r) s = handleImport_imported r s"
| "fire (ClearSettled r) s = handleImport_cleared r s"
| "fire NewSession s = handleNewSession s"

definition run :: "event list \<Rightarrow> page \<Rightarrow> page" where
  "run es s = foldl (\<lambda>s' e. fire e s') s es"

section \<open>Scenarios\<close>

text \<open>
  The values of the test scenarios: the source text and the one Basic card of scenario A, a
  first run without a stored session, and a resumed session with one Approved, one Pending and
  one Rejected card.
\<close>

definition scenarioText :: jsstring where
  "scenarioText = js ''Paris is the capital of France.''"

definition scenarioCard :: SimpleCard where
  "scenarioCard =
     \<lparr> card_id = js ''card-1'', cardType = 0, front = js ''What is the capital of France?'',
       card_back = js ''Paris'', suggestedTags = [], status = 0 \<rparr>"

definition noSession :: SimpleSession where
  "noSession =
     \<lparr> hasSession = False, session_cards = [], session_sourceName = [],
       session_sourceText = [] \<rparr>"

definition pendingSession :: SimpleSession where
  "pendingSession =
     \<lparr> hasSession = True, session_cards = [scenarioCard],
       session_sourceName = js ''Untitled'', session_sourceText = scenarioText \<rparr>"

definition mixedSession :: SimpleSession where
  "mixedSession =
     \<lparr> hasSession = True,
       session_cards =
         [scenarioCard\<lparr> status := 1 \<rparr>,
          scenarioCard\<lparr> card_id := js ''card-2'' \<rparr>,
          scenarioCard\<lparr> card_id := js ''card-3'', status := 2 \<rparr>],
       session_sourceName = js ''Untitled'', session_sourceText = scenarioText \<rparr>"

text \<open>
  A first request answered at once with an error, a retry 100 s later that is acknowledged,
  and 120 s of waiting with no completion signal.
\<close>

definition retryTrace :: "event list" where
  "retryTrace =
     [Generate scenarioText (js ''Untitled'') [],
      BridgeResponded 0 (Reply (Some (js ''API key not configured''))),
      Advance 100000,
      Generate scenarioText (js ''Untitled'') [],
      BridgeResponded 1 (Reply None),
      Advance 120000]"

text \<open>
  A request that is acknowledged and times out after 120 s, then a retry with another text
  that is acknowledged; the completion of the first request has not arrived yet.
\<close>

definition retryText :: jsstring where
  "retryText = js ''Berlin is the capital of Germany.''"

definition lateCompletionTrace :: "event list" where
  "lateCompletionTrace =
     [Generate scenarioText (js ''Untitled'') [],
      BridgeResponded 0 (Reply None),
      Advance 120000,
      Generate retryText (js ''Untitled'') [],
      BridgeResponded 1 (Reply None)]"

text \<open>
  A first request answered at once with an error, a retry 100 s later that is acknowledged,
  20 s of waiting, and then the completion signal reporting that the retry has failed.
\<close>

definition staleFailureTrace :: "event list" where
  "staleFailureTrace =
     [Generate scenarioText (js ''Untitled'') [],
      BridgeResponded 0 (Reply (Some (js ''API key not configured''))),
      Advance 100000,
      Generate scenarioText (js ''Untitled'') [],
      BridgeResponded 1 (Reply None),
      Advance 20000,
      OnGenerate \<lparr> result_cards = None, result_error = Some (js ''Rate limit exceeded'') \<rparr>]"

text \<open>Scenario A: one request, acknowledged.\<close>

definition acknowledged :: page where
  "acknowledged =
     run [Generate scenarioText (js ''Untitled'') [], BridgeResponded 0 (Reply None)]
       (mountPage [] noSession)"

section \<open>Auxiliary facts\<close>

lemma all_dropWhile: "(\<forall>x\<in>set (dropWhile P t). P x) \<longleftrightarrow> (\<forall>x\<in>set t. P x)"
  by (induction t) auto

lemma trim_Nil_iff: "trim t = [] \<longleftrightarrow> (\<forall>c\<in>set t. isWhiteSpace c)"
  by (simp add: trim_def all_dropWhile)

lemma reject_slots [simp]:
  "pendingGenerateResolve (reject p m s) = pendingGenerateResolve s"
  "pendingGenerateReject (reject p m s) = pendingGenerateReject s"
  by (simp_all add: reject_def handleGenerate_catch_def)

lemma resolve_slots [simp]:
  "pendingGenerateResolve (resolve p cs s) = pendingGenerateResolve s"
  "pendingGenerateReject (resolve p cs s) = pendingGenerateReject s"
  by (simp_all add: resolve_def handleGenerate_resume_def)

lemma onGenerate_slots [simp]:
  "pendingGenerateResolve (aiFlashcardsOnGenerate r s) = None"
  "pendingGenerateReject (aiFlashcardsOnGenerate r s) = None"
  by (simp_all add: aiFlashcardsOnGenerate_def Let_def)

lemma timerFired_slots:
  "pendingGenerateResolve (timerFired p s) = None"
  "pendingGenerateReject (timerFired p s) =
     (if pendingGenerateResolve s = None then pendingGenerateReject s else None)"
  by (simp_all add: timerFired_def)

lemma bridgeResponse_slots:
  "pendingGenerateResolve (bridgeResponse p r s) =
     (if r = Reply None \<or> r = Reply (Some []) then pendingGenerateResolve s else None)"
  "pendingGenerateReject (bridgeResponse p r s) =
     (if r = Reply None \<or> r = Reply (Some []) then pendingGenerateReject s else None)"
  by (auto simp add: bridgeResponse_def truthy_def split: bridge_response.splits option.splits)

lemma onGenerate_idle:
  "pendingGenerateResolve s = None \<Longrightarrow> pendingGenerateReject s = None \<Longrightarrow>
   aiFlashcardsOnGenerate r s = s"
  by (simp add: aiFlashcardsOnGenerate_def Let_def)

subsection \<open>The two slots are always set and cleared together\<close>

lemma timers_slots_agree:
  "pendingGenerateResolve s = pendingGenerateReject s \<Longrightarrow>
   pendingGenerateResolve (foldl (\<lambda>s' x. timerFired (snd x) s') s xs) =
   pendingGenerateReject (foldl (\<lambda>s' x. timerFired (snd x) s') s xs)"
  by (induction xs arbitrary: s) (simp_all add: timerFired_slots)

lemma advance_slots_agree:
  "pendingGenerateResolve s = pendingGenerateReject s \<Longrightarrow>
   pendingGenerateResolve (advance d s) = pendingGenerateReject (advance d s)"
  unfolding advance_def Let_def
  by (rule timers_slots_agree) simp

lemma fire_slots_agree:
  assumes "pendingGenerateResolve s = pendingGenerateReject s"
  shows "pendingGenerateResolve (fire e s) = pendingGenerateReject (fire e s)"
proof (cases e)
  case (Advance d)
  with advance_slots_agree [OF assms] show ?thesis by simp
next
  case (BridgeResponded p r)
  with assms show ?thesis by (simp add: bridgeResponse_slots)
qed (insert assms, simp_all add: handleGenerate_def Let_def handleGenerate_saved_def
      handleGenerate_catch_def handleCardUpdate_def approveAll_def rejectAll_def handleImport_def
      handleImport_imported_def handleImport_cleared_def handleImport_catch_def
      handleNewSession_def split: sum.splits)

lemma run_slots_agree:
  "pendingGenerateResolve s = pendingGenerateReject s \<Longrightarrow>
   pendingGenerateResolve (run es s) = pendingGenerateReject (run es s)"
  unfolding run_def by (induction es arbitrary: s) (simp_all add: fire_slots_agree)

subsection \<open>A settled promise stays as it is\<close>

lemma reject_keeps_settled:
  assumes "p < length (promises s)" and "settled (promises s ! p) \<noteq> Pending"
  shows "p < length (promises (reject q m s)) \<and>
         settled (promises (reject q m s) ! p) = settled (promises s ! p)"
  using assms
  by (cases "q = p") (simp_all add: reject_def isPending_def handleGenerate_catch_def)

lemma resolve_keeps_settled:
  assumes "p < length (promises s)" and "settled (promises s ! p) \<noteq> Pending"
  shows "p < length (promises (resolve q cs s)) \<and>
         settled (promises (resolve q cs s) ! p) = settled (promises s ! p)"
  using assms
  by (cases "q = p") (simp_all add: resolve_def isPending_def handleGenerate_resume_def)

lemma timerFired_keeps_settled:
  assumes "p < length (promises s)" and "settled (promises s ! p) \<noteq> Pending"
  shows "p < length (promises (timerFired q s)) \<and>
         settled (promises (timerFired q s) ! p) = settled (promises s ! p)"
proof (cases "pendingGenerateResolve s = None")
  case True
  then show ?thesis using assms by (simp add: timerFired_def)
next
  case False
  let ?s = "s\<lparr> pendingGenerateResolve := None, pendingGenerateReject := None \<rparr>"
  have "p < length (promises ?s)" "settled (promises ?s ! p) \<noteq> Pending"
    using assms by simp_all
  from reject_keeps_settled [OF this] False show ?thesis
    by (simp add: timerFired_def)
qed

lemma timers_keep_settled:
  "p < length (promises s) \<Longrightarrow> settled (promises s ! p) \<noteq> Pending \<Longrightarrow>
   p < length (promises (foldl (\<lambda>s' x. timerFired (snd x) s') s xs)) \<and>
   settled (promises (foldl (\<lambda>s' x. timerFired (snd x) s') s xs) ! p) = settled (promises s ! p)"
proof (induction xs arbitrary: s)
  case Nil
  then show ?case by simp
next
  case (Cons x xs)
  from timerFired_keeps_settled [OF Cons.prems, of "snd x"]
  have a: "p < length (promises (timerFired (snd x) s))"
    and b: "settled (promises (timerFired (snd x) s) ! p) = settled (promises s ! p)"
    by simp_all
  from b Cons.prems have c: "settled (promises (timerFired (snd x) s) ! p) \<noteq> Pending"
    by simp
  from Cons.IH [OF a c] b show ?case by simp
qed

lemma advance_keeps_settled:
  assumes "p < length (promises s)" and "settled (promises s ! p) \<noteq> Pending"
  shows "p < length (promises (advance d s)) \<and>
         settled (promises (advance d s) ! p) = settled (promises s ! p)"
proof -
  let ?s = "s\<lparr> clock := clock s + d,
                timers := filter (\<lambda>x. \<not> fst x \<le> clock s + d) (timers s) \<rparr>"
  have "p < length (promises ?s)" "settled (promises ?s ! p) \<noteq> Pending"
    using assms by simp_all
  from timers_keep_settled [OF this] show ?thesis
    by (simp add: advance_def Let_def)
qed

lemma onGenerate_keeps_settled:
  assumes "p < length (promises s)" and "settled (promises s ! p) \<noteq> Pending"
  shows "p < length (promises (aiFlashcardsOnGenerate r s)) \<and>
         settled (promises (aiFlashcardsOnGenerate r s) ! p) = settled (promises s ! p)"
  using reject_keeps_settled [OF assms] resolve_keeps_settled [OF assms] assms
  by (simp add: aiFlashcardsOnGenerate_def Let_def split: option.splits)

lemma bridgeResponse_keeps_settled:
  assumes "p < length (promises s)" and "settled (promises s ! p) \<noteq> Pending"
  shows "p < length (promises (bridgeResponse q r s)) \<and>
         settled (promises (bridgeResponse q r s) ! p) = settled (promises s ! p)"
proof -
  let ?s = "s\<lparr> pendingGenerateResolve := None, pendingGenerateReject := None \<rparr>"
  have "p < length (promises ?s)" "settled (promises ?s ! p) \<noteq> Pending"
    using assms by simp_all
  from reject_keeps_settled [OF this] assms show ?thesis
    by (simp add: bridgeResponse_def split: bridge_response.splits)
qed

lemma fire_keeps_settled:
  assumes "p < length (promises s)" and "settled (promises s ! p) \<noteq> Pending"
  shows "p < length (promises (fire e s)) \<and>
         settled (promises (fire e s) ! p) = settled (promises s ! p)"
proof (cases e)
  case (Generate t n u)
  with assms show ?thesis by (simp add: handleGenerate_def Let_def nth_append)
next
  case (BridgeResponded q r)
  with bridgeResponse_keeps_settled [OF assms] show ?thesis by simp
next
  case (OnGenerate r)
  with onGenerate_keeps_settled [OF assms] show ?thesis by simp
next
  case (Advance d)
  with advance_keeps_settled [OF assms] show ?thesis by simp
qed (insert assms, simp_all add: handleGenerate_saved_def
      handleGenerate_catch_def handleCardUpdate_def approveAll_def rejectAll_def handleImport_def
      handleImport_imported_def handleImport_cleared_def handleImport_catch_def
      handleNewSession_def Let_def split: sum.splits)

lemma run_keeps_settled:
  "p < length (promises s) \<Longrightarrow> settled (promises s ! p) \<noteq> Pending \<Longrightarrow>
   p < length (promises (run es s)) \<and> settled (promises (run es s) ! p) = settled (promises s ! p)"
proof (induction es arbitrary: s)
  case Nil
  then show ?case by (simp add: run_def)
next
  case (Cons e es)
  from fire_keeps_settled [OF Cons.prems, of e]
  have a: "p < length (promises (fire e s))"
    and b: "settled (promises (fire e s) ! p) = settled (promises s ! p)"
    by simp_all
  from b Cons.prems have c: "settled (promises (fire e s) ! p) \<noteq> Pending" by simp
  from Cons.IH [OF a c] b show ?case by (simp add: run_def)
qed

subsection \<open>One request with no older timer armed\<close>

text \<open>
  When no timer of an earlier request is armed, an acknowledged request that gets no completion
  signal is rejected with the timeout message once 120000 ms have passed.
\<close>

lemma timeout_of_single_request:
  assumes "timers s0 = []"
  shows "(let p = length (promises s0);
              s = advance timeoutMs (bridgeResponse p (Reply None) (handleGenerate t n u s0))
          in settled (promises s ! p) = Rejected timeoutMessage \<and>
             pendingGenerateResolve s = None \<and> pendingGenerateReject s = None \<and>
             currentStep s = Source \<and> error s = Some timeoutMessage \<and> timers s = [] \<and>
             sourceText s = t \<and> sourceName s = n)"
  using assms
  by (simp add: handleGenerate_def Let_def bridgeResponse_def truthy_def advance_def
      timerFired_def reject_def isPending_def handleGenerate_catch_def)

lemma acknowledged_pending:
  "isPending 0 acknowledged \<and> pendingGenerateResolve acknowledged = Some 0 \<and>
   pendingGenerateReject acknowledged = Some 0 \<and> currentStep acknowledged = Generating"
  by (simp add: acknowledged_def run_def mountPage_def noSession_def handleGenerate_def Let_def
      bridgeResponse_def truthy_def isPending_def)

section \<open>Timeout of a generation request\<close>

text \<open>
  C1: an acknowledged request that gets no completion within 120 seconds is to be rejected with
  the timeout error. Evaluated on \<open>retryTrace\<close>: the timer of the first request, which was
  answered with an error at once, runs 20 s after the retry, sees the retry's slot and clears
  it; the retry's own timer then finds the slot empty. The retry's promise is still pending
  120 s after the retry and no timer is left, so the page stays in step \<open>generating\<close>; a
  completion signal or more waiting after that leaves the promise pending.
\<close>

theorem stale_timer_cancels_retry:
  "(let s = run retryTrace (mountPage [] noSession) in
     settled (promises s ! 0) = Rejected (js ''API key not configured'') \<and>
     settled (promises s ! 1) = Pending \<and> currentStep s = Generating \<and>
     pendingGenerateResolve s = None \<and> pendingGenerateReject s = None \<and>
     timers s = [] \<and> clock s = 220000 \<and>
     settled (promises (aiFlashcardsOnGenerate
        \<lparr> result_cards = Some [scenarioCard], result_error = None \<rparr> s) ! 1) = Pending \<and>
     settled (promises (advance 600000 s) ! 1) = Pending)"
  by (simp add: retryTrace_def run_def mountPage_def noSession_def handleGenerate_def Let_def
      bridgeResponse_def reject_def isPending_def handleGenerate_catch_def advance_def
      timerFired_def timeoutMs_def truthy_def js_def scenarioText_def orElse_def
      aiFlashcardsOnGenerate_def)

section \<open>One slot, resolved once\<close>

text \<open>
  C2: there is one pair of slots, and a completion signal for a request that is already
  resolved is to change nothing. Evaluated on \<open>lateCompletionTrace\<close>: the first request is
  rejected by its timeout and the slot is null; the retry writes its own functions into the
  same slot; the completion signal of the first request, arriving now, calls them. The retry's
  promise is fulfilled with the cards of the first request, the page goes to step \<open>review\<close>
  with these cards, and they are saved under the retry's text.
\<close>

theorem late_completion_fulfils_retry:
  "(let s = run lateCompletionTrace (mountPage [] noSession);
        s' = aiFlashcardsOnGenerate
               \<lparr> result_cards = Some [scenarioCard], result_error = None \<rparr> s
    in settled (promises s ! 0) = Rejected timeoutMessage \<and>
       settled (promises s ! 1) = Pending \<and>
       pendingGenerateResolve s = Some 1 \<and> pendingGenerateReject s = Some 1 \<and>
       currentStep s = Generating \<and> cards s = [] \<and> sourceText s = retryText \<and>
       settled (promises s' ! 0) = Rejected timeoutMessage \<and>
       settled (promises s' ! 1) = Fulfilled [scenarioCard] \<and>
       currentStep s' = Review \<and> cards s' = [scenarioCard] \<and>
       rpcs s' = rpcs s @ [SaveSession (js ''Untitled'') retryText [scenarioCard]])"
  by (simp add: lateCompletionTrace_def run_def mountPage_def noSession_def handleGenerate_def
      Let_def bridgeResponse_def reject_def resolve_def isPending_def handleGenerate_catch_def
      handleGenerate_resume_def advance_def timerFired_def timeoutMs_def truthy_def orElse_def
      aiFlashcardsOnGenerate_def)

text \<open>
  What holds of the slots: in every state a sequence of events can reach, the two slots hold
  the functions of the same promise or are both null. An immediate error, a completion signal
  and a timer that runs each leave both slots null, and a completion signal that comes
  directly after changes nothing in the page. The outcome of a promise that has settled is the
  same after any further events.
\<close>

theorem single_slot_resolved_once:
  "(let s = run es (mountPage decks session) in
     pendingGenerateResolve s = pendingGenerateReject s \<and>
     (truthy e \<longrightarrow>
        pendingGenerateResolve (bridgeResponse p (Reply e) s) = None \<and>
        pendingGenerateReject (bridgeResponse p (Reply e) s) = None \<and>
        aiFlashcardsOnGenerate r (bridgeResponse p (Reply e) s) = bridgeResponse p (Reply e) s) \<and>
     pendingGenerateResolve (bridgeResponse p (Unparsable m) s) = None \<and>
     pendingGenerateReject (bridgeResponse p (Unparsable m) s) = None \<and>
     aiFlashcardsOnGenerate r (bridgeResponse p (Unparsable m) s) =
       bridgeResponse p (Unparsable m) s \<and>
     pendingGenerateResolve (aiFlashcardsOnGenerate r' s) = None \<and>
     pendingGenerateReject (aiFlashcardsOnGenerate r' s) = None \<and>
     aiFlashcardsOnGenerate r (aiFlashcardsOnGenerate r' s) = aiFlashcardsOnGenerate r' s \<and>
     pendingGenerateResolve (timerFired p s) = None \<and>
     pendingGenerateReject (timerFired p s) = None \<and>
     aiFlashcardsOnGenerate r (timerFired p s) = timerFired p s \<and>
     (p < length (promises s) \<and> settled (promises s ! p) \<noteq> Pending \<longrightarrow>
        settled (promises (run es' s) ! p) = settled (promises s ! p)))"
proof -
  define s where "s = run es (mountPage decks session)"
  have agree: "pendingGenerateResolve s = pendingGenerateReject s"
    unfolding s_def by (rule run_slots_agree) (simp add: mountPage_def)
  have immediate: "truthy e \<longrightarrow>
      pendingGenerateResolve (bridgeResponse p (Reply e) s) = None \<and>
      pendingGenerateReject (bridgeResponse p (Reply e) s) = None \<and>
      aiFlashcardsOnGenerate r (bridgeResponse p (Reply e) s) = bridgeResponse p (Reply e) s"
  proof
    assume t: "truthy e"
    then have a: "pendingGenerateResolve (bridgeResponse p (Reply e) s) = None"
      and b: "pendingGenerateReject (bridgeResponse p (Reply e) s) = None"
      by (auto simp add: bridgeResponse_slots truthy_def)
    from a b onGenerate_idle [OF a b] show
      "pendingGenerateResolve (bridgeResponse p (Reply e) s) = None \<and>
       pendingGenerateReject (bridgeResponse p (Reply e) s) = None \<and>
       aiFlashcardsOnGenerate r (bridgeResponse p (Reply e) s) = bridgeResponse p (Reply e) s"
      by simp
  qed
  have ua: "pendingGenerateResolve (bridgeResponse p (Unparsable m) s) = None"
    and ub: "pendingGenerateReject (bridgeResponse p (Unparsable m) s) = None"
    by (simp_all add: bridgeResponse_slots)
  have unparsable:
    "aiFlashcardsOnGenerate r (bridgeResponse p (Unparsable m) s) =
       bridgeResponse p (Unparsable m) s"
    by (rule onGenerate_idle [OF ua ub])
  have completion:
    "aiFlashcardsOnGenerate r (aiFlashcardsOnGenerate r' s) = aiFlashcardsOnGenerate r' s"
    by (rule onGenerate_idle) simp_all
  have ta: "pendingGenerateResolve (timerFired p s) = None"
    by (simp add: timerFired_slots)
  have tb: "pendingGenerateReject (timerFired p s) = None"
    using agree by (simp add: timerFired_slots)
  have timer: "aiFlashcardsOnGenerate r (timerFired p s) = timerFired p s"
    by (rule onGenerate_idle [OF ta tb])
  have stable: "p < length (promises s) \<and> settled (promises s ! p) \<noteq> Pending \<longrightarrow>
      settled (promises (run es' s) ! p) = settled (promises s ! p)"
    using run_keeps_settled [of p s es'] by blast
  from agree immediate ua ub unparsable completion ta tb timer stable show ?thesis
    unfolding s_def [symmetric] Let_def by simp
qed

theorem single_slot_resolved_once_witness:
  "truthy (Some (js ''API key not configured'')) \<and>
   pendingGenerateResolve acknowledged = Some 0 \<and>
   pendingGenerateResolve
     (bridgeResponse 0 (Reply (Some (js ''API key not configured''))) acknowledged) = None \<and>
   aiFlashcardsOnGenerate \<lparr> result_cards = Some [scenarioCard], result_error = None \<rparr>
     (bridgeResponse 0 (Reply (Some (js ''API key not configured''))) acknowledged) =
   bridgeResponse 0 (Reply (Some (js ''API key not configured''))) acknowledged \<and>
   settled (promises (bridgeResponse 0 (Reply (Some (js ''API key not configured'')))
     acknowledged) ! 0) = Rejected (js ''API key not configured'') \<and>
   settled (promises (run
      [OnGenerate \<lparr> result_cards = Some [scenarioCard], result_error = None \<rparr>, Advance 120000]
      (bridgeResponse 0 (Reply (Some (js ''API key not configured''))) acknowledged)) ! 0) =
     Rejected (js ''API key not configured'')"
proof -
  let ?e = "Some (js ''API key not configured'')"
  let ?r = "\<lparr> result_cards = Some [scenarioCard], result_error = None \<rparr>"
  let ?es = "[Generate scenarioText (js ''Untitled'') [], BridgeResponded 0 (Reply None)]"
  have t: "truthy ?e" by (simp add: truthy_def js_def)
  have a: "acknowledged = run ?es (mountPage [] noSession)"
    by (simp add: acknowledged_def)
  have b: "run (?es @ [BridgeResponded 0 (Reply ?e)]) (mountPage [] noSession) =
           bridgeResponse 0 (Reply ?e) acknowledged"
    by (simp add: acknowledged_def run_def)
  have c: "settled (promises (bridgeResponse 0 (Reply ?e) acknowledged) ! 0) = Rejected (the ?e)
           \<and> 0 < length (promises (bridgeResponse 0 (Reply ?e) acknowledged))"
    using acknowledged_pending t
    by (simp add: bridgeResponse_def reject_def isPending_def handleGenerate_catch_def)
  from single_slot_resolved_once [of "?es" "[]" noSession ?e 0 ?r "[]" ?r "[]"]
       single_slot_resolved_once [of "?es @ [BridgeResponded 0 (Reply ?e)]" "[]" noSession ?e 0 ?r "[]" ?r
          "[OnGenerate ?r, Advance 120000]"]
       t c acknowledged_pending
  show ?thesis
    unfolding Let_def a [symmetric] b by simp
qed

section \<open>Submitting the source text\<close>

text \<open>
  C3: a click on "Generate Flashcards" with a text that is not empty after trimming puts the
  page in step \<open>generating\<close> and sends the generation request. With a text that is empty after
  trimming, which is a text of white space only, the source input sets its own error message,
  dispatches no \<open>generate\<close> event and the page is unchanged, so it stays in step \<open>source\<close>.
\<close>

theorem submit_text_or_refuse:
  "(trim (textInput sel) \<noteq> [] \<longrightarrow>
      currentStep (snd (submitGenerate sel s)) = Generating \<and>
      fst (submitGenerate sel s) = sel \<and>
      drop (length (rpcs s)) (rpcs (snd (submitGenerate sel s))) =
        [BridgeCommand (GenerateFlashcards (textInput sel)
           (orElse (selector_sourceName sel) (js ''Untitled'')))]) \<and>
   (trim (textInput sel) = [] \<longrightarrow>
      snd (selector_handleGenerate sel) = None \<and>
      snd (submitGenerate sel s) = s \<and>
      selector_error (fst (submitGenerate sel s)) = Some provideTextMessage \<and>
      provideTextMessage \<noteq> []) \<and>
   (trim (textInput sel) = [] \<longleftrightarrow> (\<forall>c \<in> set (textInput sel). isWhiteSpace c))"
  by (simp add: submitGenerate_def selector_handleGenerate_def handleGenerate_def Let_def
      trim_Nil_iff provideTextMessage_def js_def)

theorem submit_text_or_refuse_witness:
  "trim scenarioText \<noteq> [] \<and>
   currentStep (mountPage [] noSession) = Source \<and>
   currentStep (snd (submitGenerate (mountSelector scenarioText [] []) (mountPage [] noSession)))
     = Generating \<and>
   trim (js ''  '') = [] \<and>
   snd (submitGenerate (mountSelector (js ''  '') [] []) (mountPage [] noSession))
     = mountPage [] noSession \<and>
   selector_error (fst (submitGenerate (mountSelector (js ''  '') [] []) (mountPage [] noSession)))
     = Some provideTextMessage"
proof -
  have a: "trim scenarioText \<noteq> []"
    by (simp add: trim_def scenarioText_def js_def isWhiteSpace_def)
  have b: "trim (js ''  '') = []"
    by (simp add: trim_def js_def isWhiteSpace_def)
  from a b
    submit_text_or_refuse [of "mountSelector scenarioText [] []" "mountPage [] noSession"]
    submit_text_or_refuse [of "mountSelector (js ''  '') [] []" "mountPage [] noSession"]
  show ?thesis
    by (simp add: mountSelector_def mountPage_def noSession_def)
qed

section \<open>Committing the approved cards\<close>

text \<open>
  C4: with no card of status 1, \<open>handleImport\<close> sets the error message and changes nothing
  else: the step stays as it is and no call is issued. With at least one card of status 1 the
  step becomes \<open>importing\<close> and one import call is issued.
\<close>

theorem import_needs_approved_card:
  "(approvedCount s = 0 \<longrightarrow>
      currentStep (handleImport s) = currentStep s \<and>
      rpcs (handleImport s) = rpcs s \<and>
      cards (handleImport s) = cards s \<and>
      error (handleImport s) = Some noApprovedMessage \<and> noApprovedMessage \<noteq> []) \<and>
   (1 \<le> approvedCount s \<longrightarrow>
      currentStep (handleImport s) = Importing \<and>
      error (handleImport s) = None \<and>
      (\<exists>cs. rpcs (handleImport s) = rpcs s @ [ImportApprovedCards cs (selectedDeckId s) []]))"
  by (simp add: handleImport_def noApprovedMessage_def js_def)

theorem import_needs_approved_card_witness:
  "approvedCount (mountPage [] pendingSession) = 0 \<and>
   currentStep (mountPage [] pendingSession) = Review \<and>
   currentStep (handleImport (mountPage [] pendingSession)) = Review \<and>
   rpcs (handleImport (mountPage [] pendingSession)) = rpcs (mountPage [] pendingSession) \<and>
   error (handleImport (mountPage [] pendingSession)) = Some noApprovedMessage \<and>
   1 \<le> approvedCount (mountPage [] mixedSession) \<and>
   currentStep (handleImport (mountPage [] mixedSession)) = Importing"
proof -
  have a: "approvedCount (mountPage [] pendingSession) = 0"
    by (simp add: approvedCount_def mountPage_def pendingSession_def scenarioCard_def)
  have b: "1 \<le> approvedCount (mountPage [] mixedSession)"
    by (simp add: approvedCount_def mountPage_def mixedSession_def scenarioCard_def)
  have c: "currentStep (mountPage [] pendingSession) = Review"
    by (simp add: mountPage_def pendingSession_def)
  from a b c import_needs_approved_card [of "mountPage [] pendingSession"]
    import_needs_approved_card [of "mountPage [] mixedSession"]
  show ?thesis by simp
qed

text \<open>
  C9: the card list of an import call that \<open>handleImport\<close> issues is the card collection
  filtered by status 1, in the collection's order: a card is in it exactly when it is in the
  collection with status 1. With at least one such card exactly this one call is issued.
\<close>

theorem import_passes_approved_cards:
  "(ImportApprovedCards cs deck tags \<in> set (drop (length (rpcs s)) (rpcs (handleImport s))) \<longrightarrow>
      cs = filter (\<lambda>c. status c = 1) (cards s) \<and>
      (\<forall>c. c \<in> set cs \<longleftrightarrow> c \<in> set (cards s) \<and> status c = 1)) \<and>
   (1 \<le> approvedCount s \<longrightarrow>
      drop (length (rpcs s)) (rpcs (handleImport s)) =
        [ImportApprovedCards (filter (\<lambda>c. status c = 1) (cards s)) (selectedDeckId s) []])"
  by (auto simp add: handleImport_def split: if_splits)

theorem import_passes_approved_cards_witness:
  "1 \<le> approvedCount (mountPage [] mixedSession) \<and>
   map status (cards (mountPage [] mixedSession)) = [1, 0, 2] \<and>
   drop (length (rpcs (mountPage [] mixedSession)))
     (rpcs (handleImport (mountPage [] mixedSession))) =
     [ImportApprovedCards [scenarioCard\<lparr> status := 1 \<rparr>] 0 []]"
proof -
  let ?s = "mountPage [] mixedSession"
  have a: "1 \<le> approvedCount ?s"
    by (simp add: approvedCount_def mountPage_def mixedSession_def scenarioCard_def)
  have b: "cards ?s =
      [scenarioCard\<lparr> status := 1 \<rparr>, scenarioCard\<lparr> card_id := js ''card-2'' \<rparr>,
       scenarioCard\<lparr> card_id := js ''card-3'', status := 2 \<rparr>]"
    and c: "selectedDeckId ?s = 0"
    by (simp_all add: mountPage_def mixedSession_def)
  have d: "status scenarioCard = 0"
    by (simp add: scenarioCard_def)
  from a import_passes_approved_cards [of "[scenarioCard\<lparr> status := 1 \<rparr>]" 0 "[]" ?s]
  have "drop (length (rpcs ?s)) (rpcs (handleImport ?s)) =
        [ImportApprovedCards (filter (\<lambda>c. status c = 1) (cards ?s)) (selectedDeckId ?s) []]"
    by blast
  then have e: "drop (length (rpcs ?s)) (rpcs (handleImport ?s)) =
        [ImportApprovedCards [scenarioCard\<lparr> status := 1 \<rparr>] 0 []]"
    by (simp add: b c d)
  have f: "map status (cards ?s) = [1, 0, 2]"
    by (simp add: b d)
  from a e f show ?thesis by blast
qed

section \<open>Review operations on the cards\<close>

text \<open>
  C8: \<open>approveAll\<close> gives every card status 1 and \<open>rejectAll\<close> gives every card status 2,
  whatever the status was; the number and order of the cards and every other field of each
  card stay the same.
\<close>

theorem bulk_status_overrides_every_card:
  "length (cards (approveAll s)) = length (cards s) \<and>
   length (cards (rejectAll s)) = length (cards s) \<and>
   (i < length (cards s) \<longrightarrow>
      status (cards (approveAll s) ! i) = 1 \<and>
      status (cards (rejectAll s) ! i) = 2 \<and>
      cards (approveAll s) ! i = (cards s ! i)\<lparr> status := 1 \<rparr> \<and>
      cards (rejectAll s) ! i = (cards s ! i)\<lparr> status := 2 \<rparr> \<and>
      card_id (cards (approveAll s) ! i) = card_id (cards s ! i) \<and>
      cardType (cards (approveAll s) ! i) = cardType (cards s ! i) \<and>
      front (cards (approveAll s) ! i) = front (cards s ! i) \<and>
      card_back (cards (approveAll s) ! i) = card_back (cards s ! i) \<and>
      suggestedTags (cards (approveAll s) ! i) = suggestedTags (cards s ! i) \<and>
      card_id (cards (rejectAll s) ! i) = card_id (cards s ! i) \<and>
      cardType (cards (rejectAll s) ! i) = cardType (cards s ! i) \<and>
      front (cards (rejectAll s) ! i) = front (cards s ! i) \<and>
      card_back (cards (rejectAll s) ! i) = card_back (cards s ! i) \<and>
      suggestedTags (cards (rejectAll s) ! i) = suggestedTags (cards s ! i))"
  by (simp add: approveAll_def rejectAll_def Let_def)

theorem bulk_status_overrides_every_card_witness:
  "2 < length (cards (mountPage [] mixedSession)) \<and>
   status (cards (mountPage [] mixedSession) ! 2) = 2 \<and>
   status (cards (approveAll (mountPage [] mixedSession)) ! 2) = 1 \<and>
   status (cards (mountPage [] mixedSession) ! 0) = 1 \<and>
   status (cards (rejectAll (mountPage [] mixedSession)) ! 0) = 2 \<and>
   card_id (cards (approveAll (mountPage [] mixedSession)) ! 2) = js ''card-3''"
proof -
  have b: "cards (mountPage [] mixedSession) =
      [scenarioCard\<lparr> status := 1 \<rparr>, scenarioCard\<lparr> card_id := js ''card-2'' \<rparr>,
       scenarioCard\<lparr> card_id := js ''card-3'', status := 2 \<rparr>]"
    by (simp add: mountPage_def mixedSession_def)
  from bulk_status_overrides_every_card [of "mountPage [] mixedSession" 2]
    bulk_status_overrides_every_card [of "mountPage [] mixedSession" 0]
  show ?thesis by (simp add: b)
qed

text \<open>
  C10: \<open>handleCardUpdate\<close> keeps the number and order of the cards; a card with the given id
  gets the given status and keeps its other fields, a card with another id is unchanged, and
  when no card has the given id the collection is unchanged.
\<close>

theorem handleCardUpdate_touches_one_id:
  "length (cards (handleCardUpdate cardId st s)) = length (cards s) \<and>
   (i < length (cards s) \<and> card_id (cards s ! i) = cardId \<longrightarrow>
      cards (handleCardUpdate cardId st s) ! i = (cards s ! i)\<lparr> status := st \<rparr> \<and>
      status (cards (handleCardUpdate cardId st s) ! i) = st \<and>
      card_id (cards (handleCardUpdate cardId st s) ! i) = card_id (cards s ! i) \<and>
      cardType (cards (handleCardUpdate cardId st s) ! i) = cardType (cards s ! i) \<and>
      front (cards (handleCardUpdate cardId st s) ! i) = front (cards s ! i) \<and>
      card_back (cards (handleCardUpdate cardId st s) ! i) = card_back (cards s ! i) \<and>
      suggestedTags (cards (handleCardUpdate cardId st s) ! i) = suggestedTags (cards s ! i)) \<and>
   (i < length (cards s) \<and> card_id (cards s ! i) \<noteq> cardId \<longrightarrow>
      cards (handleCardUpdate cardId st s) ! i = cards s ! i) \<and>
   ((\<forall>c \<in> set (cards s). card_id c \<noteq> cardId) \<longrightarrow>
      cards (handleCardUpdate cardId st s) = cards s)"
  by (simp add: handleCardUpdate_def Let_def map_idI)

theorem handleCardUpdate_touches_one_id_witness:
  "1 < length (cards (mountPage [] mixedSession)) \<and>
   card_id (cards (mountPage [] mixedSession) ! 1) = js ''card-2'' \<and>
   status (cards (handleCardUpdate (js ''card-2'') 1 (mountPage [] mixedSession)) ! 1) = 1 \<and>
   card_id (cards (mountPage [] mixedSession) ! 0) \<noteq> js ''card-2'' \<and>
   cards (handleCardUpdate (js ''card-2'') 1 (mountPage [] mixedSession)) ! 0 =
     cards (mountPage [] mixedSession) ! 0 \<and>
   cards (handleCardUpdate (js ''card-9'') 1 (mountPage [] mixedSession)) =
     cards (mountPage [] mixedSession)"
proof -
  let ?s = "mountPage [] mixedSession"
  have b: "cards ?s =
      [scenarioCard\<lparr> status := 1 \<rparr>, scenarioCard\<lparr> card_id := js ''card-2'' \<rparr>,
       scenarioCard\<lparr> card_id := js ''card-3'', status := 2 \<rparr>]"
    by (simp add: mountPage_def mixedSession_def)
  have c: "card_id scenarioCard = js ''card-1''"
    by (simp add: scenarioCard_def)
  have d: "js ''card-1'' \<noteq> js ''card-2''" "js ''card-1'' \<noteq> js ''card-9''"
    "js ''card-2'' \<noteq> js ''card-9''" "js ''card-3'' \<noteq> js ''card-9''"
    by (simp_all add: js_def)
  have l: "1 < length (cards ?s)" and i1: "card_id (cards ?s ! 1) = js ''card-2''"
    and i0: "card_id (cards ?s ! 0) \<noteq> js ''card-2''"
    and none: "\<forall>c \<in> set (cards ?s). card_id c \<noteq> js ''card-9''"
    by (simp_all add: b c d)
  from l i1 handleCardUpdate_touches_one_id [of "js ''card-2''" 1 ?s 1]
  have u1: "status (cards (handleCardUpdate (js ''card-2'') 1 ?s) ! 1) = 1"
    by blast
  have l0: "0 < length (cards ?s)"
    by (simp add: b)
  from l0 i0 handleCardUpdate_touches_one_id [of "js ''card-2''" 1 ?s 0]
  have u0: "cards (handleCardUpdate (js ''card-2'') 1 ?s) ! 0 = cards ?s ! 0"
    by blast
  from none handleCardUpdate_touches_one_id [of "js ''card-9''" 1 ?s 0]
  have u9: "cards (handleCardUpdate (js ''card-9'') 1 ?s) = cards ?s"
    by blast
  from l i1 u1 i0 u0 u9 show ?thesis by blast
qed

section \<open>Outcome of a generation request\<close>

text \<open>
  C5, as the page does it: when the promise of the generation call is fulfilled, the cards
  delivered become the page's cards exactly as delivered, each with the status it came with
  (so all Pending when all were delivered with status 0); the step becomes \<open>review\<close>, and
  \<open>saveSession\<close> is called next with the name and text of the request and these cards. The
  second part follows one request from its submission to the completion signal.
\<close>

theorem generation_success_enters_review:
  "(isPending p s \<longrightarrow>
      cards (resolve p cs s) = cs \<and>
      map status (cards (resolve p cs s)) = map status cs \<and>
      currentStep (resolve p cs s) = Review \<and>
      rpcs (resolve p cs s) =
        rpcs s @ [SaveSession (inv_name (promises s ! p)) (inv_text (promises s ! p)) cs]) \<and>
   (\<not> truthy (result_error r) \<longrightarrow>
      (let p' = length (promises s0);
           s1 = bridgeResponse p' (Reply None) (handleGenerate t n u s0);
           gs = (case result_cards r of None \<Rightarrow> [] | Some gs \<Rightarrow> gs);
           s2 = aiFlashcardsOnGenerate r s1
       in currentStep s1 = Generating \<and>
          cards s2 = gs \<and> currentStep s2 = Review \<and>
          rpcs s2 = rpcs s1 @ [SaveSession n t gs] \<and>
          sourceName s2 = n \<and> sourceText s2 = t \<and>
          settled (promises s2 ! p') = Fulfilled gs \<and>
          ((\<forall>c \<in> set gs. status c = 0) \<longrightarrow> pendingCount s2 = length gs)))"
  by (simp add: resolve_def handleGenerate_resume_def isPending_def Let_def handleGenerate_def
      bridgeResponse_def truthy_def aiFlashcardsOnGenerate_def pendingCount_def
      split: option.splits)

theorem generation_success_enters_review_witness:
  "isPending 0 acknowledged \<and>
   currentStep acknowledged = Generating \<and>
   cards (resolve 0 [scenarioCard] acknowledged) = [scenarioCard] \<and>
   currentStep (resolve 0 [scenarioCard] acknowledged) = Review \<and>
   \<not> truthy None \<and>
   currentStep (aiFlashcardsOnGenerate \<lparr> result_cards = Some [scenarioCard], result_error = None \<rparr>
     (bridgeResponse 0 (Reply None)
        (handleGenerate scenarioText (js ''Untitled'') [] (mountPage [] noSession)))) = Review \<and>
   pendingCount (aiFlashcardsOnGenerate \<lparr> result_cards = Some [scenarioCard], result_error = None \<rparr>
     (bridgeResponse 0 (Reply None)
        (handleGenerate scenarioText (js ''Untitled'') [] (mountPage [] noSession)))) = 1"
proof -
  let ?r = "\<lparr> result_cards = Some [scenarioCard], result_error = None \<rparr>"
  have a: "\<not> truthy (result_error ?r)" "\<not> truthy None"
    by (simp_all add: truthy_def)
  have b: "length (promises (mountPage [] noSession)) = 0"
    by (simp add: mountPage_def)
  have c: "\<forall>c \<in> set [scenarioCard]. status c = 0"
    by (simp add: scenarioCard_def)
  from a generation_success_enters_review
         [of 0 acknowledged "[scenarioCard]" ?r "mountPage [] noSession" scenarioText
             "js ''Untitled''" "[]"]
  have d: "currentStep (aiFlashcardsOnGenerate ?r (bridgeResponse 0 (Reply None)
             (handleGenerate scenarioText (js ''Untitled'') [] (mountPage [] noSession)))) = Review"
    and e: "(\<forall>c \<in> set [scenarioCard]. status c = 0) \<longrightarrow>
        pendingCount (aiFlashcardsOnGenerate ?r (bridgeResponse 0 (Reply None)
             (handleGenerate scenarioText (js ''Untitled'') [] (mountPage [] noSession)))) = 1"
    and f: "isPending 0 acknowledged \<longrightarrow>
        cards (resolve 0 [scenarioCard] acknowledged) = [scenarioCard] \<and>
        currentStep (resolve 0 [scenarioCard] acknowledged) = Review"
    unfolding Let_def b by simp_all
  from a(2) c d e f acknowledged_pending show ?thesis by blast
qed

text \<open>
  The page does not set the status of the cards it receives: a card delivered with status 1
  is in the review with status 1.
\<close>

theorem delivered_status_is_kept:
  "currentStep (aiFlashcardsOnGenerate
      \<lparr> result_cards = Some [scenarioCard\<lparr> status := 1 \<rparr>], result_error = None \<rparr>
      acknowledged) = Review \<and>
   map status (cards (aiFlashcardsOnGenerate
      \<lparr> result_cards = Some [scenarioCard\<lparr> status := 1 \<rparr>], result_error = None \<rparr>
      acknowledged)) = [1]"
  using acknowledged_pending
  by (simp add: aiFlashcardsOnGenerate_def truthy_def Let_def resolve_def
      handleGenerate_resume_def)

text \<open>
  C6: every generation failure is to bring the page from \<open>generating\<close> back to \<open>source\<close>
  with the error shown and the submitted text and name kept. Evaluated on two inputs. First, a
  request answered at once with an error: the page is in step \<open>source\<close>, its \<open>error\<close> holds
  the message and the source input is created again with the submitted text and name, but the
  template shows the page's \<open>error\<close> in step \<open>review\<close> only and the new source input has no
  error, so no message is on the page. Second, \<open>staleFailureTrace\<close>: the timer of the first
  request has cleared the retry's slot, so the signal that the retry has failed calls nothing;
  the retry's promise stays pending and the page stays in step \<open>generating\<close> with no error.
\<close>

theorem generation_failure_not_shown:
  "(let s = bridgeResponse 0 (Reply (Some (js ''API key not configured'')))
              (handleGenerate scenarioText (js ''Untitled'') [] (mountPage [] noSession));
        s' = run staleFailureTrace (mountPage [] noSession)
    in currentStep s = Source \<and>
       error s = Some (js ''API key not configured'') \<and>
       renderError s = None \<and>
       renderSelector s =
         Some \<lparr> textInput = scenarioText, urlInput = [],
                selector_sourceName = js ''Untitled'', selector_error = None \<rparr> \<and>
       settled (promises s' ! 1) = Pending \<and>
       currentStep s' = Generating \<and> error s' = None \<and> renderError s' = None \<and>
       pendingGenerateReject s' = None \<and> timers s' = [(220000, 1)])"
  by (simp add: staleFailureTrace_def run_def mountPage_def noSession_def handleGenerate_def
      Let_def bridgeResponse_def reject_def isPending_def handleGenerate_catch_def advance_def
      timerFired_def timeoutMs_def truthy_def orElse_def aiFlashcardsOnGenerate_def
      renderError_def renderSelector_def mountSelector_def js_def scenarioText_def)

text \<open>
  What the handler does when the promise of the generation call is rejected: the step becomes
  \<open>source\<close>, the page's \<open>error\<close> holds the message, \<open>sourceText\<close> and \<open>sourceName\<close> are
  unchanged, and the source input is created again with them as its initial text and name. The
  second part follows
  one request, submitted with text \<open>t\<close> and name \<open>n\<close>, through each kind of failure: an
  immediate error, a response that cannot be read, a failure delivered by the completion
  signal, and the request's timer running while the request is pending. The third part is
  scenario D: no older timer is armed, the request is acknowledged and 120000 ms pass.
\<close>

theorem generation_failure_returns_to_source:
  "(isPending p s \<longrightarrow>
      currentStep (reject p msg s) = Source \<and>
      error (reject p msg s) = Some msg \<and>
      sourceText (reject p msg s) = sourceText s \<and>
      sourceName (reject p msg s) = sourceName s \<and>
      renderSelector (reject p msg s) =
        Some (mountSelector (sourceText s) (sourceName s) (sourceUrl s))) \<and>
   (let p' = length (promises s0);
        s1 = handleGenerate t n u s0;
        s2 = bridgeResponse p' (Reply None) s1
    in currentStep s1 = Generating \<and> sourceText s1 = t \<and> sourceName s1 = n \<and>
       currentStep s2 = Generating \<and>
       (truthy e \<longrightarrow>
          currentStep (bridgeResponse p' (Reply e) s1) = Source \<and>
          error (bridgeResponse p' (Reply e) s1) = e \<and>
          sourceText (bridgeResponse p' (Reply e) s1) = t \<and>
          sourceName (bridgeResponse p' (Reply e) s1) = n \<and>
          renderSelector (bridgeResponse p' (Reply e) s1) = Some (mountSelector t n u)) \<and>
       currentStep (bridgeResponse p' (Unparsable m) s1) = Source \<and>
       error (bridgeResponse p' (Unparsable m) s1) = Some m \<and>
       sourceText (bridgeResponse p' (Unparsable m) s1) = t \<and>
       sourceName (bridgeResponse p' (Unparsable m) s1) = n \<and>
       renderSelector (bridgeResponse p' (Unparsable m) s1) = Some (mountSelector t n u) \<and>
       (truthy (result_error r) \<longrightarrow>
          currentStep (aiFlashcardsOnGenerate r s2) = Source \<and>
          error (aiFlashcardsOnGenerate r s2) = result_error r \<and>
          sourceText (aiFlashcardsOnGenerate r s2) = t \<and>
          sourceName (aiFlashcardsOnGenerate r s2) = n \<and>
          renderSelector (aiFlashcardsOnGenerate r s2) = Some (mountSelector t n u)) \<and>
       currentStep (timerFired p' s2) = Source \<and>
       error (timerFired p' s2) = Some timeoutMessage \<and>
       sourceText (timerFired p' s2) = t \<and>
       sourceName (timerFired p' s2) = n \<and>
       renderSelector (timerFired p' s2) = Some (mountSelector t n u) \<and>
       textInput (mountSelector t n u) = t \<and>
       selector_sourceName (mountSelector t n u) = n) \<and>
   (timers s0 = [] \<longrightarrow>
      (let s3 = advance timeoutMs
                  (bridgeResponse (length (promises s0)) (Reply None) (handleGenerate t n u s0))
       in currentStep s3 = Source \<and> error s3 = Some timeoutMessage \<and>
          sourceText s3 = t \<and> sourceName s3 = n \<and>
          renderSelector s3 = Some (mountSelector t n u)))"
  (is "?rejected \<and> ?request \<and> ?waited")
proof -
  have rejected: ?rejected
    by (simp add: reject_def handleGenerate_catch_def isPending_def renderSelector_def)
  have request: ?request
    by (auto simp add: reject_def handleGenerate_catch_def isPending_def Let_def
        handleGenerate_def bridgeResponse_def truthy_def aiFlashcardsOnGenerate_def
        timerFired_def renderSelector_def mountSelector_def split: option.splits)
  have waited: ?waited
    by (simp add: handleGenerate_def Let_def bridgeResponse_def truthy_def advance_def
        timerFired_def reject_def isPending_def handleGenerate_catch_def renderSelector_def)
  from rejected request waited show ?thesis
    by blast
qed

theorem generation_failure_returns_to_source_witness:
  "isPending 0 acknowledged \<and>
   currentStep (reject 0 timeoutMessage acknowledged) = Source \<and>
   error (reject 0 timeoutMessage acknowledged) = Some timeoutMessage \<and>
   truthy (Some (js ''API key not configured'')) \<and>
   currentStep (bridgeResponse 0 (Reply (Some (js ''API key not configured'')))
     (handleGenerate scenarioText (js ''Untitled'') [] (mountPage [] noSession))) = Source \<and>
   sourceText (bridgeResponse 0 (Reply (Some (js ''API key not configured'')))
     (handleGenerate scenarioText (js ''Untitled'') [] (mountPage [] noSession))) = scenarioText \<and>
   sourceText (timerFired 0 (bridgeResponse 0 (Reply None)
     (handleGenerate scenarioText (js ''Untitled'') [] (mountPage [] noSession)))) = scenarioText \<and>
   sourceName (timerFired 0 (bridgeResponse 0 (Reply None)
     (handleGenerate scenarioText (js ''Untitled'') [] (mountPage [] noSession)))) = js ''Untitled'' \<and>
   timers (mountPage [] noSession) = [] \<and>
   error (advance timeoutMs (bridgeResponse 0 (Reply None)
     (handleGenerate scenarioText (js ''Untitled'') [] (mountPage [] noSession)))) =
     Some timeoutMessage \<and>
   sourceText (advance timeoutMs (bridgeResponse 0 (Reply None)
     (handleGenerate scenarioText (js ''Untitled'') [] (mountPage [] noSession)))) = scenarioText"
proof -
  let ?e = "Some (js ''API key not configured'')"
  have a: "truthy ?e"
    by (simp add: truthy_def js_def)
  have b: "length (promises (mountPage [] noSession)) = 0"
    by (simp add: mountPage_def)
  have c: "timers (mountPage [] noSession) = []"
    by (simp add: mountPage_def)
  from a c acknowledged_pending
    generation_failure_returns_to_source
      [of 0 acknowledged timeoutMessage "mountPage [] noSession" scenarioText "js ''Untitled''" "[]"
          ?e "[]" "\<lparr> result_cards = None, result_error = ?e \<rparr>"]
  show ?thesis
    unfolding Let_def b by blast
qed

section \<open>Outcome of an import\<close>

text \<open>
  What \<open>handleImport\<close> does after its calls: when the import call returns a result, the result is stored and
  \<open>clearSession\<close> is called, the cards and the step staying as they are; when that call has
  succeeded the step becomes \<open>done\<close>. When the import call fails, the step becomes \<open>review\<close>
  with the error message, and the cards, the source name and text are unchanged and no call is
  issued, neither \<open>clearSession\<close> nor \<open>saveSession\<close>.
\<close>

theorem import_outcome:
  "importResult (handleImport_imported (Inr res) s) = Some res \<and>
   rpcs (handleImport_imported (Inr res) s) = rpcs s @ [ClearSession] \<and>
   cards (handleImport_imported (Inr res) s) = cards s \<and>
   currentStep (handleImport_imported (Inr res) s) = currentStep s \<and>
   currentStep (handleImport_cleared (Inr ()) (handleImport_imported (Inr res) s)) = Done \<and>
   rpcs (handleImport_cleared (Inr ()) (handleImport_imported (Inr res) s)) =
     rpcs s @ [ClearSession] \<and>
   currentStep (handleImport_imported (Inl msg) s) = Review \<and>
   error (handleImport_imported (Inl msg) s) = Some msg \<and>
   cards (handleImport_imported (Inl msg) s) = cards s \<and>
   sourceName (handleImport_imported (Inl msg) s) = sourceName s \<and>
   sourceText (handleImport_imported (Inl msg) s) = sourceText s \<and>
   rpcs (handleImport_imported (Inl msg) s) = rpcs s"
  by (simp add: handleImport_imported_def handleImport_cleared_def handleImport_catch_def)

theorem import_outcome_witness:
  "currentStep (handleImport (mountPage [] mixedSession)) = Importing \<and>
   currentStep (handleImport_cleared (Inr ())
     (handleImport_imported (Inr (1, 0)) (handleImport (mountPage [] mixedSession)))) = Done \<and>
   currentStep (handleImport_imported (Inl (js ''deck not found''))
     (handleImport (mountPage [] mixedSession))) = Review \<and>
   cards (handleImport_imported (Inl (js ''deck not found''))
     (handleImport (mountPage [] mixedSession))) = cards (handleImport (mountPage [] mixedSession))"
proof -
  have a: "currentStep (handleImport (mountPage [] mixedSession)) = Importing"
    by (simp add: handleImport_def approvedCount_def mountPage_def mixedSession_def
        scenarioCard_def)
  from a import_outcome [of "(1, 0)" "handleImport (mountPage [] mixedSession)"
      "js ''deck not found''"]
  show ?thesis by blast
qed

text \<open>
  C7: an import that returns a result is to end in step \<open>done\<close> with the stored session
  cleared. Evaluated on the session with one Approved card: the import call returns one
  imported card, \<open>clearSession\<close> is called and fails. The failure is caught by the \<open>catch\<close> of
  the import: the page is in step \<open>review\<close> with that failure as error, the import result is
  stored, and the cards are as before, the Approved card still ready to be imported again.
\<close>

theorem import_result_then_clear_failure:
  "currentStep (handleImport_cleared (Inl (js ''storage unavailable''))
     (handleImport_imported (Inr (1, 0)) (handleImport (mountPage [] mixedSession)))) = Review \<and>
   error (handleImport_cleared (Inl (js ''storage unavailable''))
     (handleImport_imported (Inr (1, 0)) (handleImport (mountPage [] mixedSession)))) =
     Some (js ''storage unavailable'') \<and>
   importResult (handleImport_cleared (Inl (js ''storage unavailable''))
     (handleImport_imported (Inr (1, 0)) (handleImport (mountPage [] mixedSession)))) =
     Some (1, 0) \<and>
   cards (handleImport_cleared (Inl (js ''storage unavailable''))
     (handleImport_imported (Inr (1, 0)) (handleImport (mountPage [] mixedSession)))) =
     cards (mountPage [] mixedSession) \<and>
   approvedCount (handleImport_cleared (Inl (js ''storage unavailable''))
     (handleImport_imported (Inr (1, 0)) (handleImport (mountPage [] mixedSession)))) = 1 \<and>
   drop (length (rpcs (mountPage [] mixedSession)))
     (rpcs (handleImport_cleared (Inl (js ''storage unavailable''))
       (handleImport_imported (Inr (1, 0)) (handleImport (mountPage [] mixedSession))))) =
     [ImportApprovedCards [scenarioCard\<lparr> status := 1 \<rparr>] 0 [], ClearSession]"
  by (simp add: handleImport_imported_def handleImport_cleared_def handleImport_catch_def
      handleImport_def approvedCount_def mountPage_def mixedSession_def scenarioCard_def)

end
